theory Spec2Isabelle
  imports Main
begin

section \<open>JavaScript values\<close>

text \<open>
  The provider handles loosely typed data: parsed JSON bodies, error objects, callback
  arguments. A value is one of JavaScript's primitives, an array or a plain object.
  Numbers are the integers (HTTP status codes and the Graph API's error codes are
  integers); an object is the list of its own properties, in insertion order, each name
  once.
\<close>

datatype json =
    JUndefined
  | JNull
  | JBool bool
  | JNum int
  | JStr string
  | JArr "json list"
  | JObj "(string \<times> json) list"

text \<open>
  Error values. \<open>ProviderAuthError\<close> and \<open>ProviderApiError\<close> are the two classes
  imported from \<^verbatim>\<open>../error\<close>; they are kept as constructors holding the arguments the
  provider passes to \<^verbatim>\<open>new\<close>. \<open>Error\<close> is a plain \<^verbatim>\<open>Error(message)\<close>, which is also
  what the HTTP transport reports; \<open>TypeError\<close> is what the runtime throws when a
  property of \<^verbatim>\<open>undefined\<close> or \<^verbatim>\<open>null\<close> is read or a non-function is called.
\<close>

datatype js_error =
    ProviderAuthError
  | ProviderApiError json nat
  | Error string
  | TypeError

text \<open>A computation that may throw: \<open>Inl\<close> is the thrown value.\<close>

definition bindE :: "js_error + 'a \<Rightarrow> ('a \<Rightarrow> js_error + 'b) \<Rightarrow> js_error + 'b" where
  "bindE m f = (case m of Inl x \<Rightarrow> Inl x | Inr v \<Rightarrow> f v)"

text \<open>Truthiness, as \<^verbatim>\<open>if (v)\<close>, \<^verbatim>\<open>v && w\<close> and \<^verbatim>\<open>v ? a : b\<close> test it.\<close>

fun truthy :: "json \<Rightarrow> bool" where
  "truthy JUndefined = False"
| "truthy JNull = False"
| "truthy (JBool b) = b"
| "truthy (JNum n) = (n \<noteq> 0)"
| "truthy (JStr s) = (s \<noteq> [])"
| "truthy (JArr xs) = True"
| "truthy (JObj kvs) = True"

text \<open>
  Property access \<^verbatim>\<open>v.key\<close>. Reading a property of \<^verbatim>\<open>undefined\<close> or \<^verbatim>\<open>null\<close> throws a
  TypeError; a missing property reads as \<^verbatim>\<open>undefined\<close>. The keys the provider reads
  (\<^verbatim>\<open>error\<close>, \<^verbatim>\<open>code\<close>, \<^verbatim>\<open>message\<close>, \<^verbatim>\<open>email\<close>, \<^verbatim>\<open>images\<close>, \<^verbatim>\<open>source\<close>, \<^verbatim>\<open>cursor\<close>, \<^verbatim>\<open>size\<close>) are
  not properties of the primitives' or the arrays' prototypes, so they read as
  \<^verbatim>\<open>undefined\<close> there.
\<close>

fun get :: "json \<Rightarrow> string \<Rightarrow> js_error + json" where
  "get JUndefined k = Inl TypeError"
| "get JNull k = Inl TypeError"
| "get (JObj kvs) k = Inr (case map_of kvs k of None \<Rightarrow> JUndefined | Some v \<Rightarrow> v)"
| "get v k = Inr JUndefined"

subsection \<open>Numbers in template literals\<close>

text \<open>The decimal form of a natural number, as a status code is written.\<close>

definition digit :: "nat \<Rightarrow> char" where
  "digit n = ''0123456789'' ! (n mod 10)"

function show_nat :: "nat \<Rightarrow> string" where
  "show_nat n = (if n < 10 then [digit n] else show_nat (n div 10) @ [digit n])"
  by pat_completeness auto
termination
  by (relation "measure id") auto

declare show_nat.simps [simp del]

section \<open>The error classifier\<close>

text \<open>
  A response of the HTTP client: its status code and its (parsed) body. The callbacks
  receive \<^verbatim>\<open>undefined\<close> in place of the response when none arrived: \<open>None\<close>.
\<close>

record response =
  statusCode :: nat
  body :: json

definition authProvider :: string where
  "authProvider = ''facebook''"

definition fallbackMessage :: "response \<Rightarrow> string" where
  "fallbackMessage resp =
     ''request to '' @ authProvider @ '' returned '' @ show_nat (statusCode resp)"

text \<open>
  \<^verbatim>\<open>resp.body && resp.body.error.code === 190\<close>: the conjunction reads \<^verbatim>\<open>error.code\<close>
  only when the body is truthy.
\<close>

definition invalidToken :: "response \<Rightarrow> js_error + bool" where
  "invalidToken resp =
     (if truthy (body resp)
      then bindE (get (body resp) ''error'') (\<lambda>e.
           bindE (get e ''code'') (\<lambda>c. Inr (c = JNum 190)))
      else Inr False)"

text \<open>
  \<^verbatim>\<open>resp.body && resp.body.error ? resp.body.error.message : fallbackMessage\<close>
\<close>

definition errorMessage :: "response \<Rightarrow> js_error + json" where
  "errorMessage resp =
     bindE (if truthy (body resp)
            then bindE (get (body resp) ''error'') (\<lambda>e. Inr (truthy e))
            else Inr False) (\<lambda>c.
       if c
       then bindE (get (body resp) ''error'') (\<lambda>e. get e ''message'')
       else Inr (JStr (fallbackMessage resp)))"

text \<open>
  \<^verbatim>\<open>_error (err, resp)\<close>. The transport error \<open>err\<close> is an error object or \<^verbatim>\<open>null\<close>
  (\<open>None\<close>); so is the value returned.
\<close>

definition fb_error :: "js_error option \<Rightarrow> response option \<Rightarrow> js_error + js_error option" where
  "fb_error err resp =
     (case resp of
        Some r \<Rightarrow>
          bindE (invalidToken r) (\<lambda>auth.
            if auth then Inr (Some ProviderAuthError)
            else bindE (errorMessage r) (\<lambda>msg.
                   Inr (Some (ProviderApiError msg (statusCode r)))))
      | None \<Rightarrow> Inr err)"


text \<open>
  The provider's invalid-token marker, as a property of a response body: the body has
  an \<^verbatim>\<open>error\<close> whose \<^verbatim>\<open>code\<close> is the number 190.
\<close>

definition authMarker :: "json \<Rightarrow> bool" where
  "authMarker b =
     (case get b ''error'' of
        Inl x \<Rightarrow> False
      | Inr e \<Rightarrow> (case get e ''code'' of Inl x \<Rightarrow> False | Inr c \<Rightarrow> c = JNum 190))"

text \<open>
  The message the specification's classifier attaches to an ApiError: the provider's own
  error message when the body has one, otherwise the generated fallback message.
\<close>

definition specMessage :: "response \<Rightarrow> json" where
  "specMessage resp =
     (case bindE (get (body resp) ''error'') (\<lambda>e. get e ''message'') of
        Inr (JStr m) \<Rightarrow> JStr m
      | _ \<Rightarrow> JStr (fallbackMessage resp))"

section \<open>The adapter\<close>

text \<open>
  The provider calls the functions of \<^verbatim>\<open>./adapter\<close>. They are parameters here: any
  function from raw values to a value or a thrown error. What \<^verbatim>\<open>sortImages\<close> returns is
  an array.
\<close>

record adapter =
  sortImages :: "json \<Rightarrow> js_error + json list"
  isFolder :: "json \<Rightarrow> js_error + json"
  getItemIcon :: "json \<Rightarrow> js_error + json"
  getItemName :: "json \<Rightarrow> js_error + json"
  getMimeType :: "json \<Rightarrow> js_error + json"
  getItemId :: "json \<Rightarrow> js_error + json"
  getItemThumbnailUrl :: "json \<Rightarrow> js_error + json"
  getItemRequestPath :: "json \<Rightarrow> js_error + json"
  getItemModifiedDate :: "json \<Rightarrow> js_error + json"
  getItemSubList :: "json \<Rightarrow> js_error + json"
  getNextPagePath :: "json \<Rightarrow> json \<Rightarrow> json \<Rightarrow> js_error + json"

text \<open>
  Modelled from the spec: \<^verbatim>\<open>adapter.sortImages\<close>, whose file is not among the sources.
  The specification has it order an item's image variants by ascending resolution, with
  a stable sort, ties kept in their original order. The resolution of a variant is a
  parameter; \<open>sort_key\<close> is the library's stable insertion sort. The specification
  speaks of sequences only: on any other value the call is taken to throw.
\<close>

definition spec_sortImages :: "(json \<Rightarrow> int) \<Rightarrow> json \<Rightarrow> js_error + json list" where
  "spec_sortImages resolution images =
     (case images of JArr xs \<Rightarrow> Inr (sort_key resolution xs) | _ \<Rightarrow> Inl TypeError)"

section \<open>The provider\<close>

subsection \<open>Results\<close>

record item =
  item_isFolder :: json
  item_icon :: json
  item_name :: json
  item_mimeType :: json
  item_size :: json
  item_id :: json
  item_thumbnail :: json
  item_requestPath :: json
  item_modifiedDate :: json

record list_result =
  username :: json
  items :: "item list"
  nextPagePath :: json

subsection \<open>\<^verbatim>\<open>adaptData\<close>\<close>

text \<open>
  The object pushed for one raw item; the properties are evaluated in the order they
  are written, so the first adapter call that throws decides.
\<close>

definition adaptItem :: "adapter \<Rightarrow> json \<Rightarrow> js_error + item" where
  "adaptItem ad it =
     bindE (isFolder ad it) (\<lambda>f.
     bindE (getItemIcon ad it) (\<lambda>ic.
     bindE (getItemName ad it) (\<lambda>nm.
     bindE (getMimeType ad it) (\<lambda>mt.
     bindE (getItemId ad it) (\<lambda>i.
     bindE (getItemThumbnailUrl ad it) (\<lambda>th.
     bindE (getItemRequestPath ad it) (\<lambda>rp.
     bindE (getItemModifiedDate ad it) (\<lambda>md.
       Inr \<lparr>item_isFolder = f, item_icon = ic, item_name = nm, item_mimeType = mt,
            item_size = JNull, item_id = i, item_thumbnail = th, item_requestPath = rp,
            item_modifiedDate = md\<rparr>))))))))"

text \<open>\<^verbatim>\<open>items.forEach((item) => { data.items.push({...}) })\<close>, \<open>acc\<close> being \<^verbatim>\<open>data.items\<close>.\<close>

fun forEach_push :: "adapter \<Rightarrow> json list \<Rightarrow> item list \<Rightarrow> js_error + item list" where
  "forEach_push ad [] acc = Inr acc"
| "forEach_push ad (x # xs) acc = bindE (adaptItem ad x) (\<lambda>i. forEach_push ad xs (acc @ [i]))"

text \<open>
  \<^verbatim>\<open>adaptData (res, username, directory, currentQuery)\<close>. Only an array has \<^verbatim>\<open>forEach\<close>:
  on any other value of \<^verbatim>\<open>getItemSubList(res)\<close> the call throws a TypeError.
\<close>

definition fb_adaptData :: "adapter \<Rightarrow> json \<Rightarrow> json \<Rightarrow> json \<Rightarrow> json \<Rightarrow> js_error + list_result" where
  "fb_adaptData ad res uname directory currentQuery =
     bindE (getItemSubList ad res) (\<lambda>sub.
     bindE (case sub of JArr xs \<Rightarrow> forEach_push ad xs [] | _ \<Rightarrow> Inl TypeError) (\<lambda>its.
     bindE (getNextPagePath ad res currentQuery directory) (\<lambda>np.
       Inr \<lparr>username = uname, items = its, nextPagePath = np\<rparr>)))"

subsection \<open>\<^verbatim>\<open>_getMediaUrl\<close>\<close>

text \<open>
  \<^verbatim>\<open>sortedImages[sortedImages.length - 1].source\<close>: on an empty array the index is -1,
  the element \<^verbatim>\<open>undefined\<close>, and reading \<^verbatim>\<open>source\<close> throws.
\<close>

definition fb_getMediaUrl :: "adapter \<Rightarrow> json \<Rightarrow> js_error + json" where
  "fb_getMediaUrl ad b =
     bindE (get b ''images'') (\<lambda>images.
     bindE (sortImages ad images) (\<lambda>sortedImages.
       get (if sortedImages = [] then JUndefined else last sortedImages) ''source''))"

subsection \<open>Requests, callbacks and what an operation does\<close>

text \<open>
  A request of the HTTP client (\<^verbatim>\<open>this.client.get(url).qs(qs).auth(token)\<close>), and what
  its callback receives: \<^verbatim>\<open>(err, resp, body)\<close>. The client is a function from the one
  to the other: the provider keeps no state between calls.
\<close>

record request =
  url :: string
  qs :: "(string \<times> json) list"
  auth :: string

record reply =
  reply_err :: "js_error option"
  reply_resp :: "response option"
  reply_body :: json

type_synonym client = "request \<Rightarrow> reply"

text \<open>
  A call of the caller's callback with no argument, with the error alone, or with an
  error and a result: \<^verbatim>\<open>done()\<close>, \<^verbatim>\<open>done(err)\<close>, \<^verbatim>\<open>done(err, result)\<close>.
\<close>

datatype 'r call = Call0 | Call1 "js_error option" | Call2 "js_error option" 'r

text \<open>
  What an operation does, in order: requests of the HTTP client, the opening of a
  streaming download (\<^verbatim>\<open>request(url)\<close>), a size probe (\<^verbatim>\<open>getURLMeta(url)\<close>), calls of
  \<^verbatim>\<open>logger.error\<close>, calls of the caller's callback, and an exception that nothing
  catches, which ends the operation. The caller's callback is taken not to throw.
\<close>

datatype 'r event =
    Request request
  | Fetch json
  | Probe json
  | Log "js_error option" string
  | Done "'r call"
  | Uncaught js_error

text \<open>\<^verbatim>\<open>err || resp.statusCode !== 200\<close>\<close>

definition failed :: "reply \<Rightarrow> js_error + bool" where
  "failed rp =
     (if reply_err rp \<noteq> None then Inr True
      else case reply_resp rp of
             None \<Rightarrow> Inl TypeError
           | Some r \<Rightarrow> Inr (statusCode r \<noteq> 200))"

text \<open>
  The failure branch the four requesting operations share:
  \<^verbatim>\<open>err = this._error(err, resp); logger.error(err, tag); return done(err)\<close>.
\<close>

definition deliverError :: "reply \<Rightarrow> string \<Rightarrow> 'r event list" where
  "deliverError rp tag =
     (case fb_error (reply_err rp) (reply_resp rp) of
        Inl x \<Rightarrow> [Uncaught x]
      | Inr e \<Rightarrow> [Log e tag, Done (Call1 e)])"

subsection \<open>\<^verbatim>\<open>thumbnail\<close>\<close>

definition fb_thumbnail :: "json \<Rightarrow> 'r event list" where
  "fb_thumbnail args =
     (let err = Error ''call to thumbnail is not implemented''
      in [Log (Some err) ''provider.facebook.thumbnail.error'', Done (Call1 (Some err))])"

subsection \<open>Values in template literals\<close>

definition show_int :: "int \<Rightarrow> string" where
  "show_int i = (if i < 0 then CHR ''-'' # show_nat (nat (- i)) else show_nat (nat i))"

fun joinComma :: "string list \<Rightarrow> string" where
  "joinComma [] = []"
| "joinComma [s] = s"
| "joinComma (s # t # ss) = s @ '','' @ joinComma (t # ss)"

text \<open>
  The string a value becomes inside a template literal. An array is its elements
  joined by commas, \<^verbatim>\<open>undefined\<close> and \<^verbatim>\<open>null\<close> elements being empty. How the runtime
  writes a number is the parameter \<open>num\<close>: for an integer below \<open>10\<^sup>2\<^sup>1\<close> it is the
  decimal form \<open>show_int\<close>, from there on an exponent form that depends on the
  floating-point value.
\<close>

fun toString :: "(int \<Rightarrow> string) \<Rightarrow> json \<Rightarrow> string" where
  "toString num JUndefined = ''undefined''"
| "toString num JNull = ''null''"
| "toString num (JBool b) = (if b then ''true'' else ''false'')"
| "toString num (JNum n) = num n"
| "toString num (JStr s) = s"
| "toString num (JArr xs) =
     joinComma (map (\<lambda>x. if x = JUndefined \<or> x = JNull then [] else toString num x) xs)"
| "toString num (JObj kvs) = ''[object Object]''"

subsection \<open>\<^verbatim>\<open>_getUsername\<close>\<close>

definition usernameRequest :: "string \<Rightarrow> request" where
  "usernameRequest token = \<lparr>url = ''me'', qs = [(''fields'', JStr ''email'')], auth = token\<rparr>"

text \<open>
  \<^verbatim>\<open>_getUsername (token, done)\<close>. The continuation \<open>done\<close> receives the error and the
  username; \<^verbatim>\<open>done(err)\<close> leaves the username \<^verbatim>\<open>undefined\<close>. What \<open>done\<close> does is the
  rest of the operation.
\<close>

definition fb_getUsername ::
  "client \<Rightarrow> string \<Rightarrow> (js_error option \<Rightarrow> json \<Rightarrow> 'r event list) \<Rightarrow> 'r event list" where
  "fb_getUsername cl token done =
     (let rp = cl (usernameRequest token)
      in Request (usernameRequest token) #
         (case failed rp of
            Inl x \<Rightarrow> [Uncaught x]
          | Inr True \<Rightarrow>
              (case fb_error (reply_err rp) (reply_resp rp) of
                 Inl x \<Rightarrow> [Uncaught x]
               | Inr e \<Rightarrow> Log e ''provider.facebook.user.error'' # done e JUndefined)
          | Inr False \<Rightarrow>
              (case get (reply_body rp) ''email'' of
                 Inl x \<Rightarrow> [Uncaught x]
               | Inr email \<Rightarrow> done None email)))"

subsection \<open>\<^verbatim>\<open>list\<close>\<close>

text \<open>
  The request \<^verbatim>\<open>list\<close> builds from the directory, the token and the cursor.
\<close>

definition listRequest :: "(int \<Rightarrow> string) \<Rightarrow> json \<Rightarrow> string \<Rightarrow> json \<Rightarrow> request" where
  "listRequest num directory token cursor =
     (let after = (if truthy cursor then [(''after'', cursor)] else []);
          path = (if truthy directory then toString num directory @ ''/photos'' else ''me/albums'');
          fields = (if truthy directory then ''icon,images,name,width,height,created_time''
                    else ''name,cover_photo,created_time,type'')
      in \<lparr>url = ''https://graph.facebook.com/'' @ path,
          qs = (''fields'', JStr fields) # after,
          auth = token\<rparr>)"

text \<open>
  \<^verbatim>\<open>list ({ directory, token, query = { cursor: null } }, done)\<close>. The default replaces
  an \<^verbatim>\<open>undefined\<close> query only; reading \<^verbatim>\<open>query.cursor\<close> of a \<^verbatim>\<open>null\<close> query throws
  before any request is made.
\<close>

definition queryOrDefault :: "json \<Rightarrow> json" where
  "queryOrDefault query0 = (if query0 = JUndefined then JObj [(''cursor'', JNull)] else query0)"

definition fb_list ::
  "(int \<Rightarrow> string) \<Rightarrow> adapter \<Rightarrow> client \<Rightarrow> json \<Rightarrow> string \<Rightarrow> json
     \<Rightarrow> list_result event list" where
  "fb_list num ad cl directory token query0 =
     (let query = queryOrDefault query0
      in case get query ''cursor'' of
           Inl x \<Rightarrow> [Uncaught x]
         | Inr cursor \<Rightarrow>
             (let rq = listRequest num directory token cursor; rp = cl rq
              in Request rq #
                 (case failed rp of
                    Inl x \<Rightarrow> [Uncaught x]
                  | Inr True \<Rightarrow> deliverError rp ''provider.facebook.list.error''
                  | Inr False \<Rightarrow>
                      fb_getUsername cl token (\<lambda>err uname.
                        if err \<noteq> None then [Done (Call1 err)]
                        else (case fb_adaptData ad (reply_body rp) uname directory query of
                                Inl x \<Rightarrow> [Uncaught x]
                              | Inr data \<Rightarrow> [Done (Call2 None data)])))))"

subsection \<open>\<^verbatim>\<open>size\<close>\<close>

definition itemRequest :: "string \<Rightarrow> string \<Rightarrow> request" where
  "itemRequest ident token =
     \<lparr>url = ''https://graph.facebook.com/'' @ ident, qs = [(''fields'', JStr ''images'')],
      auth = token\<rparr>"

text \<open>
  \<^verbatim>\<open>size ({ id, token }, done)\<close>. \<open>getURLMeta\<close> is the helper of \<^verbatim>\<open>../../helpers/request\<close>:
  its promise is rejected with an error (\<open>Inl\<close>) or resolved with a value (\<open>Inr\<close>). The
  \<^verbatim>\<open>then\<close> handler destructures \<^verbatim>\<open>size\<close> out of the value, which throws on \<^verbatim>\<open>undefined\<close>
  and \<^verbatim>\<open>null\<close>; the \<^verbatim>\<open>catch\<close> that follows receives that error like a rejection.
\<close>

definition fb_size ::
  "adapter \<Rightarrow> client \<Rightarrow> (json \<Rightarrow> js_error + json) \<Rightarrow> string \<Rightarrow> string \<Rightarrow> json event list" where
  "fb_size ad cl getURLMeta ident token =
     (let rq = itemRequest ident token; rp = cl rq
      in Request rq #
         (case failed rp of
            Inl x \<Rightarrow> [Uncaught x]
          | Inr True \<Rightarrow> deliverError rp ''provider.facebook.size.error''
          | Inr False \<Rightarrow>
              (case fb_getMediaUrl ad (reply_body rp) of
                 Inl x \<Rightarrow> [Uncaught x]
               | Inr u \<Rightarrow>
                   Probe u #
                   (case bindE (getURLMeta u) (\<lambda>meta. get meta ''size'') of
                      Inr sz \<Rightarrow> [Done (Call2 None sz)]
                    | Inl e \<Rightarrow> [Log (Some e) ''provider.facebook.size.error'', Done Call0]))))"

subsection \<open>\<^verbatim>\<open>download\<close>\<close>




subsection \<open>The order of a stream's events\<close>



section \<open>Reading what an operation did\<close>

text \<open>The events that reach the network.\<close>

fun network :: "'r event \<Rightarrow> bool" where
  "network (Request rq) = True"
| "network (Fetch u) = True"
| "network (Probe u) = True"
| "network ev = False"

text \<open>
  An adapter for the examples: the item list is the \<^verbatim>\<open>data\<close> property of the raw
  response, every extractor reads one property of the raw item, the resolution of an
  image variant is its \<^verbatim>\<open>width\<close>, and there is no next page.
\<close>

definition widthOf :: "json \<Rightarrow> int" where
  "widthOf i = (case get i ''width'' of Inr (JNum w) \<Rightarrow> w | _ \<Rightarrow> 0)"

definition fixtureAdapter :: adapter where
  "fixtureAdapter =
     \<lparr>sortImages = spec_sortImages widthOf,
      isFolder = (\<lambda>it. Inr (JBool True)),
      getItemIcon = (\<lambda>it. get it ''icon''),
      getItemName = (\<lambda>it. get it ''name''),
      getMimeType = (\<lambda>it. Inr JNull),
      getItemId = (\<lambda>it. get it ''id''),
      getItemThumbnailUrl = (\<lambda>it. get it ''picture''),
      getItemRequestPath = (\<lambda>it. get it ''id''),
      getItemModifiedDate = (\<lambda>it. get it ''created_time''),
      getItemSubList = (\<lambda>res. get res ''data''),
      getNextPagePath = (\<lambda>res currentQuery directory. Inr JNull)\<rparr>"

text \<open>
  Replies and a client for the examples: a reply with status 200 and a parsed body, a
  reply with another status, a transport failure; the client answers the identity
  request (\<^verbatim>\<open>me\<close>) with one reply and every other request with another.
\<close>

definition replyOf :: "nat \<Rightarrow> json \<Rightarrow> reply" where
  "replyOf status b =
     \<lparr>reply_err = None, reply_resp = Some \<lparr>statusCode = status, body = b\<rparr>, reply_body = b\<rparr>"

definition noReply :: "js_error \<Rightarrow> reply" where
  "noReply e = \<lparr>reply_err = Some e, reply_resp = None, reply_body = JUndefined\<rparr>"

definition fixtureClient :: "reply \<Rightarrow> reply \<Rightarrow> client" where
  "fixtureClient other identity rq = (if url rq = ''me'' then identity else other)"






section \<open>Properties of the error classifier\<close>

lemma get_code_190_obj:
  assumes "get e ''code'' = Inr (JNum 190)"
  obtains kvs where "e = JObj kvs"
  using assms by (cases e) auto

lemma authMarker_obj:
  assumes "authMarker b"
  obtains kvs e where "b = JObj kvs" and "get b ''error'' = Inr e"
    and "get e ''code'' = Inr (JNum 190)"
proof -
  from assms obtain e where e: "get b ''error'' = Inr e" and c: "get e ''code'' = Inr (JNum 190)"
    by (auto simp: authMarker_def split: sum.splits)
  from c obtain evs where "e = JObj evs" by (rule get_code_190_obj)
  with e obtain kvs where "b = JObj kvs" by (cases b) auto
  from this e c show thesis by (rule that)
qed

lemma invalidToken_marker: "authMarker (body r) \<Longrightarrow> invalidToken r = Inr True"
  by (erule authMarker_obj) (simp add: invalidToken_def bindE_def)

text \<open>
  C1. The classifier is not total. A truthy body without an \<^verbatim>\<open>error\<close> property, such as
  the text of a non-JSON 500 page or an empty object, makes the first test read
  \<^verbatim>\<open>code\<close> of \<^verbatim>\<open>undefined\<close>, which throws; the second test of the same function guards
  that read with \<^verbatim>\<open>resp.body.error ?\<close>.
\<close>

theorem error_throws_without_error_object:
  "fb_error err (Some \<lparr>statusCode = 500, body = JStr ''Internal Server Error''\<rparr>) = Inl TypeError
   \<and> fb_error err (Some \<lparr>statusCode = 500, body = JObj []\<rparr>) = Inl TypeError"
  by (simp add: fb_error_def invalidToken_def bindE_def)

text \<open>
  C2. A response whose body carries the invalid-token marker is classified as
  ProviderAuthError, whatever its status code and whatever the transport error; the
  status code is not looked at before this test.
\<close>

theorem error_auth_marker:
  "authMarker (body r) \<Longrightarrow> fb_error err (Some r) = Inr (Some ProviderAuthError)"
  by (simp add: fb_error_def invalidToken_marker bindE_def)

theorem error_auth_marker_witness:
  "authMarker (JObj [(''error'', JObj [(''message'', JStr ''Error validating access token''),
                                        (''code'', JNum 190)])])
   \<and> fb_error None (Some \<lparr>statusCode = 400,
        body = JObj [(''error'', JObj [(''message'', JStr ''Error validating access token''),
                                        (''code'', JNum 190)])]\<rparr>)
       = Inr (Some ProviderAuthError)"
proof -
  let ?b = "JObj [(''error'', JObj [(''message'', JStr ''Error validating access token''),
                                     (''code'', JNum 190)])]"
  have m: "authMarker (body \<lparr>statusCode = 400, body = ?b\<rparr>)"
    by (simp add: authMarker_def)
  from error_auth_marker [OF m, of None] m show ?thesis by simp
qed

text \<open>
  C3, as stated, fails where the body's \<^verbatim>\<open>error\<close> object has no \<^verbatim>\<open>message\<close>: the
  classifier then passes \<^verbatim>\<open>undefined\<close> as the message, not the fallback.
\<close>

theorem error_message_counterexample:
  "\<not> authMarker (body \<lparr>statusCode = 400, body = JObj [(''error'', JObj [(''code'', JNum 100)])]\<rparr>)
   \<and> specMessage \<lparr>statusCode = 400, body = JObj [(''error'', JObj [(''code'', JNum 100)])]\<rparr>
       = JStr ''request to facebook returned 400''
   \<and> fb_error None (Some \<lparr>statusCode = 400, body = JObj [(''error'', JObj [(''code'', JNum 100)])]\<rparr>)
       = Inr (Some (ProviderApiError JUndefined 400))
   \<and> fb_error None (Some \<lparr>statusCode = 400, body = JObj [(''error'', JObj [(''code'', JNum 100)])]\<rparr>)
       \<noteq> Inr (Some (ProviderApiError
             (specMessage \<lparr>statusCode = 400, body = JObj [(''error'', JObj [(''code'', JNum 100)])]\<rparr>)
             400))"
  by (simp add: authMarker_def specMessage_def fallbackMessage_def authProvider_def
      fb_error_def invalidToken_def errorMessage_def bindE_def show_nat.simps digit_def)

lemma error_no_response: "fb_error err None = Inr err"
  by (simp add: fb_error_def)

lemma error_provider_message:
  assumes n: "\<not> authMarker (body r)" and e: "get (body r) ''error'' = Inr e" and t: "truthy e"
  shows "\<exists>m. get e ''message'' = Inr m
       \<and> fb_error err (Some r) = Inr (Some (ProviderApiError m (statusCode r)))"
proof -
  from e t obtain kvs where b: "body r = JObj kvs"
    by (cases "body r") auto
  from t obtain m where m: "get e ''message'' = Inr m"
    by (cases e) auto
  from n e t have c: "get e ''code'' \<noteq> Inr (JNum 190)" and "\<exists>c. get e ''code'' = Inr c"
    by (cases e; simp add: authMarker_def)+
  then have "invalidToken r = Inr False"
    using b e by (auto simp: invalidToken_def bindE_def)
  moreover have "errorMessage r = Inr m"
    using b e t m by (simp add: errorMessage_def bindE_def)
  ultimately have "fb_error err (Some r) = Inr (Some (ProviderApiError m (statusCode r)))"
    by (simp add: fb_error_def bindE_def)
  with m show ?thesis
    by blast
qed

lemma error_fallback_falsy_body:
  "\<not> truthy (body r) \<Longrightarrow>
   fb_error err (Some r) = Inr (Some (ProviderApiError (JStr (fallbackMessage r)) (statusCode r)))"
  by (simp add: fb_error_def invalidToken_def errorMessage_def bindE_def)

lemma error_fallback_falsy_error:
  assumes "get (body r) ''error'' = Inr e" and "\<not> truthy e" and "e \<noteq> JUndefined" and "e \<noteq> JNull"
  shows "fb_error err (Some r)
    = Inr (Some (ProviderApiError (JStr (fallbackMessage r)) (statusCode r)))"
proof -
  from assms have "get e ''code'' = Inr JUndefined"
    by (cases e) auto
  with assms show ?thesis
    by (simp add: fb_error_def invalidToken_def errorMessage_def bindE_def)
qed

text \<open>
  C3, amended. Without a response the transport error is returned unchanged. With a
  response that does not carry the marker, the result is a ProviderApiError with the
  response's status code; its message is the \<^verbatim>\<open>message\<close> property of the body's
  \<^verbatim>\<open>error\<close> (whatever it is, \<^verbatim>\<open>undefined\<close> included) when that \<^verbatim>\<open>error\<close> is truthy, and
  the fallback message naming the provider and the status code when the body is falsy
  or its \<^verbatim>\<open>error\<close> is a falsy value other than \<^verbatim>\<open>undefined\<close> and \<^verbatim>\<open>null\<close>.
\<close>

theorem error_api_or_transport:
  "fb_error err None = Inr err
   \<and> (\<not> authMarker (body r) \<and> get (body r) ''error'' = Inr e \<and> truthy e \<longrightarrow>
        (\<exists>m. get e ''message'' = Inr m
           \<and> fb_error err (Some r) = Inr (Some (ProviderApiError m (statusCode r)))))
   \<and> (\<not> truthy (body r)
        \<or> (get (body r) ''error'' = Inr e \<and> \<not> truthy e \<and> e \<noteq> JUndefined \<and> e \<noteq> JNull) \<longrightarrow>
        fb_error err (Some r)
          = Inr (Some (ProviderApiError (JStr (fallbackMessage r)) (statusCode r))))"
  using error_no_response error_provider_message error_fallback_falsy_body
    error_fallback_falsy_error
  by blast

theorem error_api_or_transport_witness:
  "fb_error (Some (Error ''ETIMEDOUT'')) None = Inr (Some (Error ''ETIMEDOUT''))
   \<and> fb_error None (Some \<lparr>statusCode = 404, body = JObj [(''error'',
        JObj [(''message'', JStr ''Unsupported get request''), (''code'', JNum 100)])]\<rparr>)
       = Inr (Some (ProviderApiError (JStr ''Unsupported get request'') 404))
   \<and> fb_error None (Some \<lparr>statusCode = 502, body = JUndefined\<rparr>)
       = Inr (Some (ProviderApiError (JStr ''request to facebook returned 502'') 502))"
proof -
  let ?e = "JObj [(''message'', JStr ''Unsupported get request''), (''code'', JNum 100)]"
  let ?r = "\<lparr>statusCode = 404, body = JObj [(''error'', ?e)]\<rparr>"
  let ?q = "\<lparr>statusCode = 502, body = JUndefined\<rparr>"
  have a: "\<not> authMarker (body ?r) \<and> get (body ?r) ''error'' = Inr ?e \<and> truthy ?e"
    by (simp add: authMarker_def)
  have b: "\<not> truthy (body ?q)"
    by simp
  have f: "fallbackMessage ?q = ''request to facebook returned 502''"
    by (simp add: fallbackMessage_def authProvider_def show_nat.simps digit_def)
  from error_api_or_transport [of "Some (Error ''ETIMEDOUT'')" ?q JUndefined]
    error_api_or_transport [of None ?r ?e] a
    error_api_or_transport [of None ?q JUndefined] b f
  show ?thesis
    by simp
qed

section \<open>\<^verbatim>\<open>thumbnail\<close>\<close>

text \<open>
  C7. Every call of \<^verbatim>\<open>thumbnail\<close>, whatever its arguments, logs and delivers the error
  \<^verbatim>\<open>call to thumbnail is not implemented\<close> to the callback and does nothing else: no
  event of the call reaches the network.
\<close>

theorem thumbnail_not_implemented:
  "fb_thumbnail args =
     [Log (Some (Error ''call to thumbnail is not implemented''))
        ''provider.facebook.thumbnail.error'',
      Done (Call1 (Some (Error ''call to thumbnail is not implemented'')))]
   \<and> filter network (fb_thumbnail args) = []"
  by (simp add: fb_thumbnail_def Let_def)

section \<open>\<^verbatim>\<open>adaptData\<close>\<close>

lemma adaptItem_size: "adaptItem ad it = Inr i \<Longrightarrow> item_size i = JNull"
  by (auto simp: adaptItem_def bindE_def split: sum.splits)

lemma forEach_push_size:
  "forEach_push ad xs acc = Inr its \<Longrightarrow> \<forall>i\<in>set acc. item_size i = JNull \<Longrightarrow>
   \<forall>i\<in>set its. item_size i = JNull"
proof (induction xs arbitrary: acc)
  case Nil
  then show ?case by simp
next
  case (Cons x xs)
  from Cons.prems(1) obtain i where i: "adaptItem ad x = Inr i"
    and r: "forEach_push ad xs (acc @ [i]) = Inr its"
    by (auto simp: bindE_def split: sum.splits)
  from i Cons.prems(2) have "\<forall>j\<in>set (acc @ [i]). item_size j = JNull"
    by (auto dest: adaptItem_size)
  with r show ?case by (rule Cons.IH)
qed

text \<open>
  C9. Whatever the adapter, the raw response, the username, the directory and the
  query: every item of a result of \<^verbatim>\<open>adaptData\<close> has \<^verbatim>\<open>size\<close> \<^verbatim>\<open>null\<close>.
\<close>

theorem adaptData_size_null:
  "fb_adaptData ad res uname directory currentQuery = Inr data \<Longrightarrow>
   \<forall>i\<in>set (items data). item_size i = JNull"
proof -
  assume a: "fb_adaptData ad res uname directory currentQuery = Inr data"
  then obtain xs its where "forEach_push ad xs [] = Inr its" and "items data = its"
    by (auto simp: fb_adaptData_def bindE_def split: sum.splits json.splits)
  then show ?thesis
    using forEach_push_size [of ad xs "[]" its] by simp
qed

theorem adaptData_size_null_witness:
  "fb_adaptData fixtureAdapter
     (JObj [(''data'', JArr [JObj [(''id'', JStr ''10''), (''name'', JStr ''Holiday''),
                                   (''size'', JNum 2048)]])])
     (JStr ''user@example.com'') JNull (JObj [(''cursor'', JNull)])
   = Inr \<lparr>username = JStr ''user@example.com'',
          items = [\<lparr>item_isFolder = JBool True, item_icon = JUndefined,
                    item_name = JStr ''Holiday'', item_mimeType = JNull, item_size = JNull,
                    item_id = JStr ''10'', item_thumbnail = JUndefined,
                    item_requestPath = JStr ''10'', item_modifiedDate = JUndefined\<rparr>],
          nextPagePath = JNull\<rparr>
   \<and> list_all (\<lambda>i. item_size i = JNull)
        [\<lparr>item_isFolder = JBool True, item_icon = JUndefined,
          item_name = JStr ''Holiday'', item_mimeType = JNull, item_size = JNull,
          item_id = JStr ''10'', item_thumbnail = JUndefined,
          item_requestPath = JStr ''10'', item_modifiedDate = JUndefined\<rparr>]"
proof -
  let ?res = "JObj [(''data'', JArr [JObj [(''id'', JStr ''10''), (''name'', JStr ''Holiday''),
                                   (''size'', JNum 2048)]])]"
  let ?it = "\<lparr>item_isFolder = JBool True, item_icon = JUndefined,
          item_name = JStr ''Holiday'', item_mimeType = JNull, item_size = JNull,
          item_id = JStr ''10'', item_thumbnail = JUndefined,
          item_requestPath = JStr ''10'', item_modifiedDate = JUndefined\<rparr>"
  let ?data = "\<lparr>username = JStr ''user@example.com'', items = [?it], nextPagePath = JNull\<rparr>"
  have e: "fb_adaptData fixtureAdapter ?res (JStr ''user@example.com'') JNull
             (JObj [(''cursor'', JNull)]) = Inr ?data"
    by (simp add: fb_adaptData_def fixtureAdapter_def adaptItem_def bindE_def)
  from adaptData_size_null [OF e] e show ?thesis
    by (simp add: list_all_iff)
qed

section \<open>\<^verbatim>\<open>_getMediaUrl\<close>\<close>

lemma last_sort_key_greatest:
  assumes "xs \<noteq> []" and "y \<in> set xs"
  shows "f y \<le> f (last (sort_key f xs))"
proof -
  let ?ys = "sort_key f xs"
  from assms(2) obtain i where i: "i < length ?ys" and y: "?ys ! i = y"
    by (metis in_set_conv_nth set_sort)
  have "sorted (map f ?ys)" by simp
  moreover from i have "i \<le> length ?ys - 1" by simp
  moreover from assms(1) have "length ?ys - 1 < length (map f ?ys)" by simp
  ultimately have "map f ?ys ! i \<le> map f ?ys ! (length ?ys - 1)"
    by (rule sorted_nth_mono)
  moreover from assms(1) have "?ys \<noteq> []" by (metis length_sort length_0_conv)
  ultimately show ?thesis
    using i y by (simp add: last_conv_nth)
qed

lemma last_sort_key_Max:
  assumes "xs \<noteq> []"
  shows "f (last (sort_key f xs)) = Max (f ` set xs)"
proof (rule sym, rule Max_eqI)
  show "finite (f ` set xs)" by simp
  show "\<And>v. v \<in> f ` set xs \<Longrightarrow> v \<le> f (last (sort_key f xs))"
    using assms by (auto intro: last_sort_key_greatest)
  from assms have "sort_key f xs \<noteq> []" by (metis length_sort length_0_conv)
  then have "last (sort_key f xs) \<in> set (sort_key f xs)" by (rule last_in_set)
  then show "f (last (sort_key f xs)) \<in> f ` set xs" by simp
qed

lemma last_filter_last:
  "xs \<noteq> [] \<Longrightarrow> P (last xs) \<Longrightarrow> last (filter P xs) = last xs"
proof (induction xs)
  case Nil
  then show ?case by simp
next
  case (Cons x xs)
  show ?case
  proof (cases "xs = []")
    case True
    with Cons.prems show ?thesis by simp
  next
    case False
    with Cons.prems have p: "P (last xs)" by simp
    with False have l: "last (filter P xs) = last xs" by (rule Cons.IH)
    from False p have "last xs \<in> set (filter P xs)" by simp
    then have "filter P xs \<noteq> []" by (metis empty_iff empty_set)
    with l False show ?thesis by simp
  qed
qed

lemma last_sort_key_stable:
  assumes "xs \<noteq> []"
  shows "last (sort_key f xs) = last (filter (\<lambda>y. f y = Max (f ` set xs)) xs)"
proof -
  let ?ys = "sort_key f xs" and ?k = "Max (f ` set xs)"
  from assms have ne: "?ys \<noteq> []" by (metis length_sort length_0_conv)
  from assms have "f (last ?ys) = ?k" by (rule last_sort_key_Max)
  with ne have "last (filter (\<lambda>y. f y = ?k) ?ys) = last ?ys"
    by (simp add: last_filter_last)
  then show ?thesis by (simp add: sort_key_stable)
qed

text \<open>
  C8. With the specification's \<^verbatim>\<open>sortImages\<close> for a resolution \<open>res\<close>, and a body whose
  \<^verbatim>\<open>images\<close> is a non-empty array: the sorted sequence is ordered by ascending
  resolution, keeps the variants of every resolution in their original order, and the
  URL \<^verbatim>\<open>_getMediaUrl\<close> returns is the \<^verbatim>\<open>source\<close> of its last element, which is a variant of
  the greatest resolution: among those, the last one of the original list.
\<close>

theorem getMediaUrl_highest_resolution:
  assumes "sortImages ad = spec_sortImages res"
    and "get b ''images'' = Inr (JArr imgs)" and "imgs \<noteq> []"
  shows "\<exists>sorted_imgs chosen.
           sortImages ad (JArr imgs) = Inr sorted_imgs
         \<and> sorted (map res sorted_imgs)
         \<and> (\<forall>k. filter (\<lambda>i. res i = k) sorted_imgs = filter (\<lambda>i. res i = k) imgs)
         \<and> chosen = last sorted_imgs
         \<and> chosen = last (filter (\<lambda>i. res i = Max (res ` set imgs)) imgs)
         \<and> chosen \<in> set imgs
         \<and> (\<forall>i\<in>set imgs. res i \<le> res chosen)
         \<and> fb_getMediaUrl ad b = get chosen ''source''"
proof -
  let ?ys = "sort_key res imgs"
  from assms(3) have ne: "?ys \<noteq> []" by (metis length_sort length_0_conv)
  have s: "sortImages ad (JArr imgs) = Inr ?ys"
    by (simp add: assms(1) spec_sortImages_def)
  have "sorted (map res ?ys)" by simp
  moreover have "\<forall>k. filter (\<lambda>i. res i = k) ?ys = filter (\<lambda>i. res i = k) imgs"
    by (simp add: sort_key_stable)
  moreover have "last ?ys = last (filter (\<lambda>i. res i = Max (res ` set imgs)) imgs)"
    using assms(3) by (rule last_sort_key_stable)
  moreover from ne have "last ?ys \<in> set imgs"
    using last_in_set [of ?ys] by simp
  moreover have "\<forall>i\<in>set imgs. res i \<le> res (last ?ys)"
    using assms(3) by (auto intro: last_sort_key_greatest)
  moreover have "fb_getMediaUrl ad b = get (last ?ys) ''source''"
    using s ne assms(2) by (simp add: fb_getMediaUrl_def bindE_def)
  ultimately show ?thesis
    using s by blast
qed

theorem getMediaUrl_highest_resolution_witness:
  "sortImages fixtureAdapter = spec_sortImages widthOf
   \<and> get (JObj [(''images'', JArr [JObj [(''source'', JStr ''a-720.jpg''), (''width'', JNum 720)],
                                     JObj [(''source'', JStr ''b-720.jpg''), (''width'', JNum 720)],
                                     JObj [(''source'', JStr ''c-130.jpg''), (''width'', JNum 130)]])])
        ''images''
       = Inr (JArr [JObj [(''source'', JStr ''a-720.jpg''), (''width'', JNum 720)],
                    JObj [(''source'', JStr ''b-720.jpg''), (''width'', JNum 720)],
                    JObj [(''source'', JStr ''c-130.jpg''), (''width'', JNum 130)]])
   \<and> fb_getMediaUrl fixtureAdapter
        (JObj [(''images'', JArr [JObj [(''source'', JStr ''a-720.jpg''), (''width'', JNum 720)],
                                  JObj [(''source'', JStr ''b-720.jpg''), (''width'', JNum 720)],
                                  JObj [(''source'', JStr ''c-130.jpg''), (''width'', JNum 130)]])])
       = Inr (JStr ''b-720.jpg'')"
proof -
  let ?a = "JObj [(''source'', JStr ''a-720.jpg''), (''width'', JNum 720)]"
  let ?b = "JObj [(''source'', JStr ''b-720.jpg''), (''width'', JNum 720)]"
  let ?c = "JObj [(''source'', JStr ''c-130.jpg''), (''width'', JNum 130)]"
  let ?body = "JObj [(''images'', JArr [?a, ?b, ?c])]"
  have h1: "sortImages fixtureAdapter = spec_sortImages widthOf"
    by (simp add: fixtureAdapter_def)
  have h2: "get ?body ''images'' = Inr (JArr [?a, ?b, ?c])"
    by simp
  have h3: "[?a, ?b, ?c] \<noteq> []"
    by simp
  have w: "widthOf ?a = 720" "widthOf ?b = 720" "widthOf ?c = 130"
    by (simp_all add: widthOf_def)
  have "last (filter (\<lambda>i. widthOf i = Max (widthOf ` set [?a, ?b, ?c])) [?a, ?b, ?c]) = ?b"
    by (simp add: w)
  with getMediaUrl_highest_resolution [OF h1 h2 h3]
  have "fb_getMediaUrl fixtureAdapter ?body = get ?b ''source''"
    by auto
  with h1 h2 show ?thesis
    by simp
qed

section \<open>\<^verbatim>\<open>size\<close>\<close>

lemma size_metadata_failure:
  assumes "failed (cl (itemRequest ident token)) = Inr True"
    and "fb_error (reply_err (cl (itemRequest ident token)))
           (reply_resp (cl (itemRequest ident token))) = Inr e"
  shows "fb_size ad cl getURLMeta ident token =
           [Request (itemRequest ident token), Log e ''provider.facebook.size.error'',
            Done (Call1 e)]"
  using assms by (simp add: fb_size_def deliverError_def Let_def)

lemma size_probe_failure:
  assumes "failed (cl (itemRequest ident token)) = Inr False"
    and "fb_getMediaUrl ad (reply_body (cl (itemRequest ident token))) = Inr u"
    and "getURLMeta u = Inl e"
  shows "fb_size ad cl getURLMeta ident token =
           [Request (itemRequest ident token), Probe u,
            Log (Some e) ''provider.facebook.size.error'', Done Call0]"
  using assms by (simp add: fb_size_def Let_def bindE_def)

text \<open>
  C5, as stated, fails for a failure of the first request of \<^verbatim>\<open>size\<close>: when the
  metadata request ends in a transport error, the callback receives that error.
\<close>

theorem size_error_delivered_counterexample:
  "fb_size fixtureAdapter (\<lambda>rq. noReply (Error ''ETIMEDOUT'')) (\<lambda>u. Inr (JObj [(''size'', JNum 5)]))
     ''10'' ''T''
   = [Request (itemRequest ''10'' ''T''),
      Log (Some (Error ''ETIMEDOUT'')) ''provider.facebook.size.error'',
      Done (Call1 (Some (Error ''ETIMEDOUT'')))]"
  by (simp add: fb_size_def deliverError_def Let_def noReply_def failed_def fb_error_def)

text \<open>
  C5, amended. When the metadata request succeeds, the media URL is found and the
  size probe is rejected, \<^verbatim>\<open>size\<close> logs the probe's error and calls the callback with
  no argument: no error and no size. When the metadata request fails and the
  classifier returns \<open>c\<close> for it, \<open>c\<close> is logged and delivered to the callback.
\<close>

theorem size_swallows_probe_failure:
  "(failed (cl (itemRequest ident token)) = Inr False
      \<and> fb_getMediaUrl ad (reply_body (cl (itemRequest ident token))) = Inr u
      \<and> getURLMeta u = Inl e \<longrightarrow>
    fb_size ad cl getURLMeta ident token =
      [Request (itemRequest ident token), Probe u,
       Log (Some e) ''provider.facebook.size.error'', Done Call0])
   \<and> (failed (cl (itemRequest ident token)) = Inr True
      \<and> fb_error (reply_err (cl (itemRequest ident token)))
           (reply_resp (cl (itemRequest ident token))) = Inr c \<longrightarrow>
    fb_size ad cl getURLMeta ident token =
      [Request (itemRequest ident token), Log c ''provider.facebook.size.error'',
       Done (Call1 c)])"
  using size_probe_failure size_metadata_failure by blast

theorem size_swallows_probe_failure_witness:
  "fb_size fixtureAdapter
     (\<lambda>rq. replyOf 200 (JObj [(''images'', JArr [JObj [(''source'', JStr ''a.jpg''),
                                                       (''width'', JNum 720)]])]))
     (\<lambda>u. Inl (Error ''ECONNRESET'')) ''10'' ''T''
   = [Request (itemRequest ''10'' ''T''), Probe (JStr ''a.jpg''),
      Log (Some (Error ''ECONNRESET'')) ''provider.facebook.size.error'', Done Call0]
   \<and> fb_size fixtureAdapter (\<lambda>rq. replyOf 500 JUndefined) (\<lambda>u. Inl (Error ''ECONNRESET''))
        ''10'' ''T''
   = [Request (itemRequest ''10'' ''T''),
      Log (Some (ProviderApiError (JStr ''request to facebook returned 500'') 500))
        ''provider.facebook.size.error'',
      Done (Call1 (Some (ProviderApiError (JStr ''request to facebook returned 500'') 500)))]"
proof -
  let ?b = "JObj [(''images'', JArr [JObj [(''source'', JStr ''a.jpg''), (''width'', JNum 720)]])]"
  let ?cl = "\<lambda>rq::request. replyOf 200 ?b"
  let ?cl' = "\<lambda>rq::request. replyOf 500 JUndefined"
  let ?meta = "\<lambda>u::json. (Inl (Error ''ECONNRESET'') :: js_error + json)"
  have a: "failed (?cl (itemRequest ''10'' ''T'')) = Inr False
      \<and> fb_getMediaUrl fixtureAdapter (reply_body (?cl (itemRequest ''10'' ''T''))) = Inr (JStr ''a.jpg'')
      \<and> ?meta (JStr ''a.jpg'') = Inl (Error ''ECONNRESET'')"
    by (simp add: failed_def replyOf_def fb_getMediaUrl_def fixtureAdapter_def
        spec_sortImages_def bindE_def)
  have b: "failed (?cl' (itemRequest ''10'' ''T'')) = Inr True
      \<and> fb_error (reply_err (?cl' (itemRequest ''10'' ''T'')))
           (reply_resp (?cl' (itemRequest ''10'' ''T'')))
         = Inr (Some (ProviderApiError (JStr ''request to facebook returned 500'') 500))"
    by (simp add: failed_def replyOf_def fb_error_def invalidToken_def errorMessage_def
        bindE_def fallbackMessage_def authProvider_def show_nat.simps digit_def)
  from size_swallows_probe_failure [of ?cl "''10''" "''T''" fixtureAdapter "JStr ''a.jpg''" ?meta
      "Error ''ECONNRESET''"] a
    size_swallows_probe_failure [of ?cl' "''10''" "''T''" fixtureAdapter _ ?meta _
      "Some (ProviderApiError (JStr ''request to facebook returned 500'') 500)"] b
  show ?thesis
    by simp
qed

section \<open>\<^verbatim>\<open>list\<close>\<close>

lemma listRequest_not_usernameRequest: "listRequest num directory token cursor \<noteq> usernameRequest token"
proof
  assume "listRequest num directory token cursor = usernameRequest token"
  then have "url (listRequest num directory token cursor) = url (usernameRequest token)"
    by simp
  then show False
    by (simp add: listRequest_def usernameRequest_def Let_def)
qed

lemma deliverError_no_request: "Request rq \<notin> set (deliverError rp tag)"
  by (simp add: deliverError_def split: sum.splits)

lemma failed_error_truthy:
  assumes "failed rp = Inr True" and "fb_error (reply_err rp) (reply_resp rp) = Inr e"
  shows "e \<noteq> None"
proof (cases "reply_resp rp")
  case None
  with assms(1) have "reply_err rp \<noteq> None"
    by (auto simp: failed_def split: if_splits)
  with None assms(2) show ?thesis
    by (simp add: fb_error_def)
next
  case (Some r)
  with assms(2) show ?thesis
    by (auto simp: fb_error_def bindE_def split: sum.splits if_splits)
qed

lemma getUsername_failure:
  assumes "failed (cl (usernameRequest token)) = Inr True"
    and "fb_error (reply_err (cl (usernameRequest token)))
           (reply_resp (cl (usernameRequest token))) = Inr e"
  shows "fb_getUsername cl token done =
           Request (usernameRequest token) # Log e ''provider.facebook.user.error''
             # done e JUndefined"
  using assms by (simp add: fb_getUsername_def Let_def)

lemma getUsername_success:
  assumes "failed (cl (usernameRequest token)) = Inr False"
    and "get (reply_body (cl (usernameRequest token))) ''email'' = Inr email"
  shows "fb_getUsername cl token done = Request (usernameRequest token) # done None email"
  using assms by (simp add: fb_getUsername_def Let_def)

lemma getUsername_first:
  "\<exists>rest. fb_getUsername cl token done = Request (usernameRequest token) # rest"
  by (simp add: fb_getUsername_def Let_def)

lemma list_unfold:
  assumes "get (queryOrDefault query0) ''cursor'' = Inr cursor"
  shows "fb_list num ad cl directory token query0 =
           Request (listRequest num directory token cursor) #
             (case failed (cl (listRequest num directory token cursor)) of
                Inl x \<Rightarrow> [Uncaught x]
              | Inr True \<Rightarrow>
                  deliverError (cl (listRequest num directory token cursor))
                    ''provider.facebook.list.error''
              | Inr False \<Rightarrow>
                  fb_getUsername cl token (\<lambda>err uname.
                    if err \<noteq> None then [Done (Call1 err)]
                    else (case fb_adaptData ad (reply_body (cl (listRequest num directory token cursor)))
                                 uname directory (queryOrDefault query0) of
                            Inl x \<Rightarrow> [Uncaught x]
                          | Inr data \<Rightarrow> [Done (Call2 None data)])))"
  using assms by (simp add: fb_list_def Let_def)

lemma list_identity_iff:
  assumes "get (queryOrDefault query0) ''cursor'' = Inr cursor"
    and "fb_list num ad cl directory token query0 = Request (listRequest num directory token cursor) # rest"
  shows "Request (usernameRequest token) \<in> set rest
           \<longleftrightarrow> failed (cl (listRequest num directory token cursor)) = Inr False"
proof (cases "failed (cl (listRequest num directory token cursor))")
  case (Inl x)
  with assms show ?thesis
    by (auto simp: list_unfold)
next
  case (Inr ok)
  show ?thesis
  proof (cases ok)
    case True
    with Inr assms show ?thesis
      by (auto simp: list_unfold deliverError_no_request)
  next
    case False
    obtain r where "fb_getUsername cl token (\<lambda>err uname.
                    if err \<noteq> None then [Done (Call1 err)]
                    else (case fb_adaptData ad (reply_body (cl (listRequest num directory token cursor)))
                                 uname directory (queryOrDefault query0) of
                            Inl x \<Rightarrow> [Uncaught x]
                          | Inr data \<Rightarrow> [Done (Call2 None data)]))
                 = Request (usernameRequest token) # r"
      using getUsername_first by blast
    with False Inr assms show ?thesis
      by (auto simp: list_unfold)
  qed
qed

lemma list_identity_failure:
  assumes "get (queryOrDefault query0) ''cursor'' = Inr cursor"
    and "failed (cl (listRequest num directory token cursor)) = Inr False"
    and "failed (cl (usernameRequest token)) = Inr True"
    and "fb_error (reply_err (cl (usernameRequest token)))
           (reply_resp (cl (usernameRequest token))) = Inr e"
  shows "fb_list num ad cl directory token query0 =
           [Request (listRequest num directory token cursor), Request (usernameRequest token),
            Log e ''provider.facebook.user.error'', Done (Call1 e)]"
proof -
  from assms(3,4) have "e \<noteq> None" by (rule failed_error_truthy)
  with assms show ?thesis
    by (simp add: list_unfold getUsername_failure)
qed

text \<open>
  The order of the two requests of \<^verbatim>\<open>list\<close>. A call whose \<^verbatim>\<open>query.cursor\<close> cannot be read
  makes no request. Otherwise its first event is the listing request, which is not the
  identity request; the identity request is among the later events exactly when the
  listing request succeeded (no transport error, status 200); and when the identity
  request then fails and the classifier returns \<open>e\<close> for it, the call ends by logging
  \<open>e\<close> and delivering \<open>e\<close> alone.
\<close>

lemma list_identity_after_listing:
  "(get (queryOrDefault query0) ''cursor'' = Inl x \<longrightarrow>
      fb_list num ad cl directory token query0 = [Uncaught x])
   \<and> (get (queryOrDefault query0) ''cursor'' = Inr cursor \<longrightarrow>
      (\<exists>rest. fb_list num ad cl directory token query0
                 = Request (listRequest num directory token cursor) # rest
         \<and> listRequest num directory token cursor \<noteq> usernameRequest token
         \<and> (Request (usernameRequest token) \<in> set rest
              \<longleftrightarrow> failed (cl (listRequest num directory token cursor)) = Inr False)
         \<and> (\<forall>e. failed (cl (listRequest num directory token cursor)) = Inr False
                \<and> failed (cl (usernameRequest token)) = Inr True
                \<and> fb_error (reply_err (cl (usernameRequest token)))
                     (reply_resp (cl (usernameRequest token))) = Inr e
              \<longrightarrow> rest = [Request (usernameRequest token),
                           Log e ''provider.facebook.user.error'', Done (Call1 e)])))"
proof (intro conjI impI)
  assume "get (queryOrDefault query0) ''cursor'' = Inl x"
  then show "fb_list num ad cl directory token query0 = [Uncaught x]"
    by (simp add: fb_list_def Let_def)
next
  assume c: "get (queryOrDefault query0) ''cursor'' = Inr cursor"
  then obtain rest where
    r: "fb_list num ad cl directory token query0 = Request (listRequest num directory token cursor) # rest"
    by (simp add: list_unfold)
  have "Request (usernameRequest token) \<in> set rest
          \<longleftrightarrow> failed (cl (listRequest num directory token cursor)) = Inr False"
    using c r by (rule list_identity_iff)
  moreover have "\<forall>e. failed (cl (listRequest num directory token cursor)) = Inr False
                \<and> failed (cl (usernameRequest token)) = Inr True
                \<and> fb_error (reply_err (cl (usernameRequest token)))
                     (reply_resp (cl (usernameRequest token))) = Inr e
              \<longrightarrow> rest = [Request (usernameRequest token),
                           Log e ''provider.facebook.user.error'', Done (Call1 e)]"
    using r list_identity_failure [OF c, where cl = cl and ad = ad and num = num and directory = directory and token = token] by auto
  ultimately show "\<exists>rest. fb_list num ad cl directory token query0
                 = Request (listRequest num directory token cursor) # rest
         \<and> listRequest num directory token cursor \<noteq> usernameRequest token
         \<and> (Request (usernameRequest token) \<in> set rest
              \<longleftrightarrow> failed (cl (listRequest num directory token cursor)) = Inr False)
         \<and> (\<forall>e. failed (cl (listRequest num directory token cursor)) = Inr False
                \<and> failed (cl (usernameRequest token)) = Inr True
                \<and> fb_error (reply_err (cl (usernameRequest token)))
                     (reply_resp (cl (usernameRequest token))) = Inr e
              \<longrightarrow> rest = [Request (usernameRequest token),
                           Log e ''provider.facebook.user.error'', Done (Call1 e)])"
    using r listRequest_not_usernameRequest by blast
qed

text \<open>
  C4. The identity request is made only after the listing request has succeeded, but
  its failure does not always reach the caller. When the identity request is answered
  with status 502 and the text \<^verbatim>\<open>Bad Gateway\<close>, the classifier throws inside the callback
  of \<^verbatim>\<open>_getUsername\<close>, before \<^verbatim>\<open>logger.error\<close> and \<^verbatim>\<open>done\<close>: the call delivers neither the
  classified error nor a result.
\<close>

theorem list_identity_error_undelivered:
  "fb_list show_int fixtureAdapter
     (fixtureClient (replyOf 200 (JObj [(''data'', JArr [])]))
        (replyOf 502 (JStr ''Bad Gateway'')))
     JNull ''T'' JUndefined
   = [Request (listRequest show_int JNull ''T'' JNull), Request (usernameRequest ''T''),
      Uncaught TypeError]"
proof -
  have "url (listRequest show_int JNull ''T'' JNull) \<noteq> ''me''"
    by (simp add: listRequest_def)
  then show ?thesis
    by (simp add: fb_list_def fb_getUsername_def queryOrDefault_def fixtureClient_def
        usernameRequest_def replyOf_def failed_def fb_error_def invalidToken_def bindE_def
        Let_def)
qed

lemma getUsername_delivers:
  assumes "Done (Call2 err data) \<in> set (fb_getUsername cl token done)"
    and "\<And>e u. e \<noteq> None \<Longrightarrow> Done (Call2 err data) \<notin> set (done e u)"
  obtains email where "get (reply_body (cl (usernameRequest token))) ''email'' = Inr email"
    and "failed (cl (usernameRequest token)) = Inr False"
    and "Done (Call2 err data) \<in> set (done None email)"
proof (cases "failed (cl (usernameRequest token))")
  case (Inl x)
  with assms(1) show thesis
    by (simp add: fb_getUsername_def Let_def)
next
  case (Inr bad)
  note fb = Inr
  show thesis
  proof (cases bad)
    case True
    with fb have ft: "failed (cl (usernameRequest token)) = Inr True"
      by simp
    show thesis
    proof (cases "fb_error (reply_err (cl (usernameRequest token)))
                    (reply_resp (cl (usernameRequest token)))")
      case (Inl x)
      with ft assms(1) show thesis
        by (simp add: fb_getUsername_def Let_def)
    next
      case (Inr e)
      with ft have "e \<noteq> None"
        by (rule failed_error_truthy)
      then have "Done (Call2 err data) \<notin> set (done e JUndefined)"
        by (rule assms(2))
      with ft Inr assms(1) show thesis
        by (simp add: getUsername_failure)
    qed
  next
    case False
    with fb assms(1) obtain email
      where "get (reply_body (cl (usernameRequest token))) ''email'' = Inr email"
        and "Done (Call2 err data) \<in> set (done None email)"
      by (auto simp: fb_getUsername_def Let_def split: sum.splits)
    with False fb show thesis
      by (auto intro: that)
  qed
qed

lemma list_result_delivered:
  assumes "Done (Call2 err data) \<in> set (fb_list num ad cl directory token query0)"
  shows "err = None
    \<and> get (reply_body (cl (usernameRequest token))) ''email'' = Inr (username data)
    \<and> Request (usernameRequest token) \<in> set (fb_list num ad cl directory token query0)"
proof (cases "get (queryOrDefault query0) ''cursor''")
  case (Inl x)
  with assms show ?thesis
    by (simp add: fb_list_def Let_def)
next
  case (Inr cursor)
  let ?rp = "cl (listRequest num directory token cursor)"
  let ?up = "cl (usernameRequest token)"
  let ?done = "\<lambda>err uname.
                    if err \<noteq> None then [Done (Call1 err)]
                    else (case fb_adaptData ad (reply_body ?rp) uname directory
                                 (queryOrDefault query0) of
                            Inl x \<Rightarrow> [Uncaught x]
                          | Inr data \<Rightarrow> [Done (Call2 None data)])"
  have f: "fb_list num ad cl directory token query0 =
             Request (listRequest num directory token cursor) #
               (case failed ?rp of
                  Inl x \<Rightarrow> [Uncaught x]
                | Inr True \<Rightarrow> deliverError ?rp ''provider.facebook.list.error''
                | Inr False \<Rightarrow> fb_getUsername cl token ?done)"
    using Inr by (rule list_unfold)
  have d: "Done (Call2 err data) \<notin> set (deliverError ?rp ''provider.facebook.list.error'')"
    by (simp add: deliverError_def split: sum.splits)
  from assms f d have ok: "failed ?rp = Inr False"
    and g: "Done (Call2 err data) \<in> set (fb_getUsername cl token ?done)"
    by (auto split: sum.splits bool.splits)
  have "\<And>e u. e \<noteq> None \<Longrightarrow> Done (Call2 err data) \<notin> set (?done e u)"
    by simp
  with g obtain email where m: "get (reply_body ?up) ''email'' = Inr email"
    and uok: "failed ?up = Inr False"
    and h: "Done (Call2 err data) \<in> set (?done None email)"
    by (rule getUsername_delivers)
  from h have "err = None" and "username data = email"
    by (auto simp: fb_adaptData_def bindE_def split: sum.splits)
  moreover from f ok uok m
  have "Request (usernameRequest token) \<in> set (fb_list num ad cl directory token query0)"
    by (simp add: getUsername_success)
  ultimately show ?thesis
    using m by simp
qed

lemma list_without_email:
  assumes "get (queryOrDefault query0) ''cursor'' = Inr cursor"
    and "failed (cl (listRequest num directory token cursor)) = Inr False"
    and "failed (cl (usernameRequest token)) = Inr False"
    and "reply_body (cl (usernameRequest token)) = JObj kvs" and "map_of kvs ''email'' = None"
    and "fb_adaptData ad (reply_body (cl (listRequest num directory token cursor))) JUndefined
           directory (queryOrDefault query0) = Inr data"
  shows "fb_list num ad cl directory token query0 =
           [Request (listRequest num directory token cursor), Request (usernameRequest token),
            Done (Call2 None data)]
         \<and> username data = JUndefined"
proof -
  from assms(4,5) have "get (reply_body (cl (usernameRequest token))) ''email'' = Inr JUndefined"
    by simp
  with assms(1,2,3,6) have "fb_list num ad cl directory token query0 =
           [Request (listRequest num directory token cursor), Request (usernameRequest token),
            Done (Call2 None data)]"
    by (simp add: list_unfold getUsername_success)
  moreover from assms(6) have "username data = JUndefined"
    by (auto simp: fb_adaptData_def bindE_def split: sum.splits)
  ultimately show ?thesis ..
qed

text \<open>
  C10. When \<^verbatim>\<open>list\<close> delivers a result, it delivers it without an error, the identity
  request was made, that request asks for the field \<^verbatim>\<open>email\<close> only, and the result's
  username is the \<^verbatim>\<open>email\<close> property of the identity reply's body. When that body is an
  object without \<^verbatim>\<open>email\<close> (both requests having succeeded, and \<^verbatim>\<open>adaptData\<close> returning),
  the result is delivered all the same, with username \<^verbatim>\<open>undefined\<close>.
\<close>

theorem list_username_is_email:
  "(Done (Call2 err data) \<in> set (fb_list num ad cl directory token query0) \<longrightarrow>
      err = None
      \<and> Request (usernameRequest token) \<in> set (fb_list num ad cl directory token query0)
      \<and> url (usernameRequest token) = ''me''
      \<and> qs (usernameRequest token) = [(''fields'', JStr ''email'')]
      \<and> get (reply_body (cl (usernameRequest token))) ''email'' = Inr (username data))
   \<and> (get (queryOrDefault query0) ''cursor'' = Inr cursor
      \<and> failed (cl (listRequest num directory token cursor)) = Inr False
      \<and> failed (cl (usernameRequest token)) = Inr False
      \<and> reply_body (cl (usernameRequest token)) = JObj kvs \<and> map_of kvs ''email'' = None
      \<and> fb_adaptData ad (reply_body (cl (listRequest num directory token cursor))) JUndefined
           directory (queryOrDefault query0) = Inr data' \<longrightarrow>
      fb_list num ad cl directory token query0 =
        [Request (listRequest num directory token cursor), Request (usernameRequest token),
         Done (Call2 None data')]
      \<and> username data' = JUndefined)"
proof -
  have "Done (Call2 err data) \<in> set (fb_list num ad cl directory token query0) \<longrightarrow>
      err = None
      \<and> Request (usernameRequest token) \<in> set (fb_list num ad cl directory token query0)
      \<and> url (usernameRequest token) = ''me''
      \<and> qs (usernameRequest token) = [(''fields'', JStr ''email'')]
      \<and> get (reply_body (cl (usernameRequest token))) ''email'' = Inr (username data)"
    using list_result_delivered [where err = err and data = data and num = num and ad = ad and cl = cl
        and directory = directory and token = token and ?query0.0 = query0]
    by (simp add: usernameRequest_def)
  moreover have "get (queryOrDefault query0) ''cursor'' = Inr cursor
      \<and> failed (cl (listRequest num directory token cursor)) = Inr False
      \<and> failed (cl (usernameRequest token)) = Inr False
      \<and> reply_body (cl (usernameRequest token)) = JObj kvs \<and> map_of kvs ''email'' = None
      \<and> fb_adaptData ad (reply_body (cl (listRequest num directory token cursor))) JUndefined
           directory (queryOrDefault query0) = Inr data' \<longrightarrow>
      fb_list num ad cl directory token query0 =
        [Request (listRequest num directory token cursor), Request (usernameRequest token),
         Done (Call2 None data')]
      \<and> username data' = JUndefined"
    using list_without_email [where ?query0.0 = query0 and cursor = cursor and cl = cl and num = num
        and directory = directory and token = token and kvs = kvs and ad = ad and data = data'] by blast
  ultimately show ?thesis ..
qed

theorem list_username_is_email_witness:
  "fb_list show_int fixtureAdapter
     (fixtureClient (replyOf 200 (JObj [(''data'', JArr [])]))
        (replyOf 200 (JObj [(''email'', JStr ''user@example.com''), (''id'', JStr ''7'')])))
     JNull ''T'' JUndefined
   = [Request (listRequest show_int JNull ''T'' JNull), Request (usernameRequest ''T''),
      Done (Call2 None \<lparr>username = JStr ''user@example.com'', items = [], nextPagePath = JNull\<rparr>)]
   \<and> get (reply_body
          (fixtureClient (replyOf 200 (JObj [(''data'', JArr [])]))
             (replyOf 200 (JObj [(''email'', JStr ''user@example.com''), (''id'', JStr ''7'')]))
             (usernameRequest ''T'')))
        ''email''
       = Inr (username \<lparr>username = JStr ''user@example.com'', items = [], nextPagePath = JNull\<rparr>)
   \<and> fb_list show_int fixtureAdapter
        (fixtureClient (replyOf 200 (JObj [(''data'', JArr [])]))
           (replyOf 200 (JObj [(''id'', JStr ''7'')])))
        JNull ''T'' JUndefined
   = [Request (listRequest show_int JNull ''T'' JNull), Request (usernameRequest ''T''),
      Done (Call2 None \<lparr>username = JUndefined, items = [], nextPagePath = JNull\<rparr>)]"
proof -
  let ?l = "replyOf 200 (JObj [(''data'', JArr [])])"
  let ?cl = "fixtureClient ?l
        (replyOf 200 (JObj [(''email'', JStr ''user@example.com''), (''id'', JStr ''7'')]))"
  let ?cl' = "fixtureClient ?l (replyOf 200 (JObj [(''id'', JStr ''7'')]))"
  let ?d = "\<lparr>username = JStr ''user@example.com'', items = [], nextPagePath = JNull\<rparr>"
  let ?d' = "\<lparr>username = JUndefined, items = [], nextPagePath = JNull\<rparr>"
  have u: "url (listRequest show_int JNull ''T'' JNull) \<noteq> ''me''"
    by (simp add: listRequest_def)
  have t: "fb_list show_int fixtureAdapter ?cl JNull ''T'' JUndefined
     = [Request (listRequest show_int JNull ''T'' JNull), Request (usernameRequest ''T''),
        Done (Call2 None ?d)]"
    using u
    by (simp add: fb_list_def fb_getUsername_def queryOrDefault_def fixtureClient_def
        usernameRequest_def replyOf_def failed_def fb_adaptData_def fixtureAdapter_def
        bindE_def Let_def)
  then have m: "Done (Call2 None ?d) \<in> set (fb_list show_int fixtureAdapter ?cl JNull ''T'' JUndefined)"
    by simp
  have h: "get (queryOrDefault JUndefined) ''cursor'' = Inr JNull
      \<and> failed (?cl' (listRequest show_int JNull ''T'' JNull)) = Inr False
      \<and> failed (?cl' (usernameRequest ''T'')) = Inr False
      \<and> reply_body (?cl' (usernameRequest ''T'')) = JObj [(''id'', JStr ''7'')]
      \<and> map_of [(''id'', JStr ''7'')] ''email'' = None
      \<and> fb_adaptData fixtureAdapter (reply_body (?cl' (listRequest show_int JNull ''T'' JNull))) JUndefined
           JNull (queryOrDefault JUndefined) = Inr ?d'"
    using u
    by (simp add: queryOrDefault_def fixtureClient_def usernameRequest_def replyOf_def
        failed_def fb_adaptData_def fixtureAdapter_def bindE_def)
  from list_username_is_email [where err = None and data = ?d and num = show_int and ad = fixtureAdapter
      and cl = ?cl and directory = JNull and token = "''T''" and ?query0.0 = JUndefined] m
  have "get (reply_body (?cl (usernameRequest ''T''))) ''email'' = Inr (username ?d)"
    by blast
  moreover
  from list_username_is_email [where num = show_int and ad = fixtureAdapter and cl = ?cl' and directory = JNull
      and token = "''T''" and ?query0.0 = JUndefined and cursor = JNull
      and kvs = "[(''id'', JStr ''7'')]" and data' = ?d'] h
  have "fb_list show_int fixtureAdapter ?cl' JNull ''T'' JUndefined
     = [Request (listRequest show_int JNull ''T'' JNull), Request (usernameRequest ''T''),
        Done (Call2 None ?d')]"
    by blast
  ultimately show ?thesis
    using t by simp
qed

section \<open>\<^verbatim>\<open>download\<close>\<close>















end
